theory Spec2Isabelle
  imports Complex_Main
begin

section \<open>Modelling conventions\<close>

text \<open>
  The development embeds the ledger (\<^verbatim>\<open>engine/portfolio.py\<close>), the simulated broker
  (\<^verbatim>\<open>broker/simulated.py\<close>), the signal handling of the engine
  (\<^verbatim>\<open>engine/engine.py\<close>) and the table validation of the data loaders
  (\<^verbatim>\<open>data/base.py\<close>).

  A Python \<^verbatim>\<open>float\<close> is modelled as the real number it denotes; infinities and NaN are
  not modelled. Comparisons, \<^verbatim>\<open>min\<close>, \<^verbatim>\<open>max\<close>, \<^verbatim>\<open>abs\<close> and \<^verbatim>\<open>int(x)\<close> are exact on
  floats and are those of the reals. The operations that round are not fixed: every function
  that computes with floats takes a record \<open>A\<close> of them as its first argument, and a theorem
  stated for every \<open>A\<close> holds of the double arithmetic of Python as of any other.
  Python \<^verbatim>\<open>int\<close> is \<open>int\<close>, \<^verbatim>\<open>str\<close> is \<open>string\<close>, a
  \<^verbatim>\<open>pd.Timestamp\<close> is an integer tick count. Methods that assign to fields of
  \<^verbatim>\<open>self\<close> take the object and return the updated one.
\<close>

type_synonym timestamp = int

datatype error =
    ValueError_missing_column string
  | ValueError_index
  | TypeError

text \<open>
  The float operations of the source: \<^verbatim>\<open>x + y\<close>, \<^verbatim>\<open>x - y\<close>, \<^verbatim>\<open>x * y\<close>, \<^verbatim>\<open>x / y\<close>,
  \<^verbatim>\<open>round(x, n)\<close>, the conversion of an \<^verbatim>\<open>int\<close> operand to \<^verbatim>\<open>float\<close>, and the float a
  decimal literal of the source text denotes.
\<close>

record float_ops =
  fadd :: "real \<Rightarrow> real \<Rightarrow> real"
  fsub :: "real \<Rightarrow> real \<Rightarrow> real"
  fmul :: "real \<Rightarrow> real \<Rightarrow> real"
  fdiv :: "real \<Rightarrow> real \<Rightarrow> real"
  fround :: "real \<Rightarrow> nat \<Rightarrow> real"
  fof_int :: "int \<Rightarrow> real"
  flit :: "real \<Rightarrow> real"

text \<open>
  Rounding to \<open>n\<close> decimals without representation error: the nearest multiple of
  \<open>10\<^sup>-\<^sup>n\<close>, ties to the even neighbour.
\<close>

definition py_round :: "real \<Rightarrow> nat \<Rightarrow> real" where
  "py_round x n =
     (let s = x * 10 ^ n;
          f = \<lfloor>s\<rfloor>;
          d = s - of_int f
      in of_int (if d < 1 / 2 then f
                 else if 1 / 2 < d then f + 1
                 else if even f then f else f + 1) / 10 ^ n)"

text \<open>
  The operations without rounding error. The examples are computed with them; their values are
  those of the double arithmetic up to its representation error.
\<close>

definition exact :: float_ops where
  "exact = \<lparr>fadd = (+), fsub = (-), fmul = (*), fdiv = (/), fround = py_round,
            fof_int = of_int, flit = (\<lambda>x. x)\<rparr>"

text \<open>\<^verbatim>\<open>int(x)\<close> on a float truncates towards zero.\<close>

definition py_int :: "real \<Rightarrow> int" where
  "py_int x = (if 0 \<le> x then \<lfloor>x\<rfloor> else \<lceil>x\<rceil>)"

section \<open>Events (engine/event.py)\<close>

record signal_event =
  sig_datetime :: timestamp
  sig_symbol :: string
  sig_direction :: string
  sig_volume :: int
  sig_order_type :: string
  sig_limit_price :: "real option"

record order_event =
  ord_datetime :: timestamp
  ord_symbol :: string
  ord_direction :: string
  ord_order_type :: string
  ord_quantity :: int
  ord_price :: "real option"

record fill_event =
  fill_datetime :: timestamp
  fill_symbol :: string
  fill_direction :: string
  fill_quantity :: int
  fill_price :: real
  fill_commission :: real
  fill_slippage_cost :: real

datatype event =
    MarketEv timestamp
  | SignalEv signal_event
  | OrderEv order_event
  | FillEv fill_event

text \<open>One row of the bar table: \<^verbatim>\<open>bar.name\<close> and the five required columns.\<close>

record bar =
  bar_name :: timestamp
  bar_open :: real
  bar_high :: real
  bar_low :: real
  bar_close :: real
  bar_volume :: real

section \<open>Portfolio (engine/portfolio.py)\<close>

record trade =
  trade_datetime :: timestamp
  trade_symbol :: string
  trade_direction :: string
  trade_price :: real
  trade_quantity :: int
  trade_commission :: real
  trade_slippage :: real

record equity_row =
  eq_datetime :: timestamp
  eq_cash :: real
  eq_market_value :: real
  eq_total_equity :: real
  eq_position :: int

record portfolio =
  initial_capital :: real
  cash :: real
  commission_rate :: real
  slippage :: real
  min_commission :: real
  stamp_tax :: real
  market :: string
  position :: int
  position_avg_cost :: real
  trades :: "trade list"
  equity_curve :: "equity_row list"

text \<open>\<^verbatim>\<open>Portfolio.__init__\<close>.\<close>

definition Portfolio_init ::
  "real \<Rightarrow> real \<Rightarrow> real \<Rightarrow> real \<Rightarrow> real \<Rightarrow> string \<Rightarrow> portfolio" where
  "Portfolio_init capital rate slip min_comm tax mkt =
     \<lparr>initial_capital = capital, cash = capital, commission_rate = rate, slippage = slip,
      min_commission = min_comm, stamp_tax = tax, market = mkt,
      position = 0, position_avg_cost = 0, trades = [], equity_curve = []\<rparr>"

definition calculate_slippage :: "float_ops \<Rightarrow> portfolio \<Rightarrow> real \<Rightarrow> string \<Rightarrow> real" where
  "calculate_slippage A p price direction =
     (if direction = ''BUY'' then fround A (fmul A price (fadd A (fof_int A 1) (slippage p))) 4
      else fround A (fmul A price (fsub A (fof_int A 1) (slippage p))) 4)"

definition calculate_commission ::
  "float_ops \<Rightarrow> portfolio \<Rightarrow> real \<Rightarrow> int \<Rightarrow> string \<Rightarrow> real" where
  "calculate_commission A p price quantity direction =
     (let trade_amount = fmul A price (fof_int A quantity);
          commission =
            (if market p = ''A'' then
               (let c = max (fmul A trade_amount (commission_rate p)) (min_commission p)
                in if direction = ''SELL''
                   then fadd A c (fmul A trade_amount (stamp_tax p)) else c)
             else fmul A trade_amount (commission_rate p))
      in fround A commission 2)"

text \<open>The \<^verbatim>\<open>self.trades.append(Trade(...))\<close> at the end of \<^verbatim>\<open>execute_fill\<close>.\<close>

definition record_trade :: "portfolio \<Rightarrow> fill_event \<Rightarrow> portfolio" where
  "record_trade p f =
     p\<lparr>trades := trades p @
          [\<lparr>trade_datetime = fill_datetime f, trade_symbol = fill_symbol f,
            trade_direction = fill_direction f, trade_price = fill_price f,
            trade_quantity = fill_quantity f, trade_commission = fill_commission f,
            trade_slippage = fill_slippage_cost f\<rparr>]\<rparr>"

text \<open>
  \<^verbatim>\<open>Portfolio.execute_fill\<close>: the returned flag and the portfolio after the call.
\<close>

definition execute_fill :: "float_ops \<Rightarrow> portfolio \<Rightarrow> fill_event \<Rightarrow> bool \<times> portfolio" where
  "execute_fill A p f =
     (let cost = fmul A (fill_price f) (fof_int A (fill_quantity f)) in
      if fill_direction f = ''BUY'' then
        (let total_cost = fadd A cost (fill_commission f) in
         if total_cost > cash p then (False, p)
         else
           (let total_value =
                  fadd A (fmul A (position_avg_cost p) (fof_int A (position p))) cost;
                p1 = p\<lparr>position := position p + fill_quantity f\<rparr>;
                p2 = (if position p1 > 0
                      then p1\<lparr>position_avg_cost :=
                                fdiv A total_value (fof_int A (position p1))\<rparr>
                      else p1);
                p3 = p2\<lparr>cash := fsub A (cash p2) total_cost\<rparr>
            in (True, record_trade p3 f)))
      else if fill_direction f = ''SELL'' then
        (if fill_quantity f > position p then (False, p)
         else
           (let revenue = fsub A cost (fill_commission f);
                p1 = p\<lparr>cash := fadd A (cash p) revenue\<rparr>;
                p2 = p1\<lparr>position := position p1 - fill_quantity f\<rparr>;
                p3 = (if position p2 = 0 then p2\<lparr>position_avg_cost := 0\<rparr> else p2)
            in (True, record_trade p3 f)))
      else (True, record_trade p f))"

definition update_market_value ::
  "float_ops \<Rightarrow> portfolio \<Rightarrow> timestamp \<Rightarrow> real \<Rightarrow> portfolio" where
  "update_market_value A p dt close_price =
     (let market_value = fmul A (fof_int A (position p)) close_price;
          total_equity = fadd A (cash p) market_value
      in p\<lparr>equity_curve := equity_curve p @
            [\<lparr>eq_datetime = dt, eq_cash = fround A (cash p) 2,
              eq_market_value = fround A market_value 2,
              eq_total_equity = fround A total_equity 2,
              eq_position = position p\<rparr>]\<rparr>)"

section \<open>Simulated broker (broker/simulated.py)\<close>

record broker =
  order_count :: int

text \<open>
  Step 1 of \<^verbatim>\<open>execute_order\<close>: the local variable \<^verbatim>\<open>fill_price\<close>, the price before
  slippage. \<open>Inr None\<close> is the early \<^verbatim>\<open>return None\<close>; comparing a missing limit price
  (\<^verbatim>\<open>None\<close>) with a float raises \<^verbatim>\<open>TypeError\<close>.
\<close>

definition base_fill_price :: "order_event \<Rightarrow> bar \<Rightarrow> error + real option" where
  "base_fill_price ord b =
     (if ord_order_type ord = ''MARKET'' then Inr (Some (bar_close b))
      else if ord_order_type ord = ''LIMIT'' then
        (case ord_price ord of
           None \<Rightarrow> Inl TypeError
         | Some lp \<Rightarrow>
             if ord_direction ord = ''BUY'' then
               (if lp < bar_low b then Inr None else Inr (Some (min lp (bar_close b))))
             else
               (if lp > bar_high b then Inr None else Inr (Some (max lp (bar_close b)))))
      else Inr None)"

text \<open>
  \<^verbatim>\<open>SimulatedBroker.execute_order\<close>: the returned fill (or \<^verbatim>\<open>None\<close>), the broker
  after the call and the portfolio object after the call.
\<close>

definition execute_order ::
  "float_ops \<Rightarrow> broker \<Rightarrow> order_event \<Rightarrow> bar \<Rightarrow> portfolio
     \<Rightarrow> error + (fill_event option \<times> broker \<times> portfolio)" where
  "execute_order A br ord b p =
     (let br' = br\<lparr>order_count := order_count br + 1\<rparr> in
      case base_fill_price ord b of
        Inl e \<Rightarrow> Inl e
      | Inr None \<Rightarrow> Inr (None, br', p)
      | Inr (Some fp) \<Rightarrow>
          (let actual_price = calculate_slippage A p fp (ord_direction ord);
               commission =
                 calculate_commission A p actual_price (ord_quantity ord) (ord_direction ord)
           in if ord_direction ord = ''BUY''
                 \<and> fadd A (fmul A actual_price (fof_int A (ord_quantity ord))) commission
                     > cash p
              then Inr (None, br', p)
              else if ord_direction ord = ''SELL'' \<and> ord_quantity ord > position p
              then Inr (None, br', p)
              else
                Inr (Some \<lparr>fill_datetime = ord_datetime ord, fill_symbol = ord_symbol ord,
                           fill_direction = ord_direction ord, fill_quantity = ord_quantity ord,
                           fill_price = actual_price, fill_commission = commission,
                           fill_slippage_cost =
                             fmul A \<bar>fsub A actual_price fp\<bar> (fof_int A (ord_quantity ord))\<rparr>,
                     br', p)))"

section \<open>Engine (engine/engine.py) and the strategy calls (strategy/base.py)\<close>

record engine =
  eng_data :: "bar list"
  eng_symbol :: string
  eng_market :: string
  event_queue :: "event list"
  eng_portfolio :: portfolio
  eng_broker :: broker

text \<open>
  \<^verbatim>\<open>BacktestEngine.__init__\<close>: the portfolio takes the capital, the commission rate, the
  slippage and the market of the engine and the defaults of \<^verbatim>\<open>Portfolio\<close> for the
  minimum commission (\<^verbatim>\<open>5.0\<close>) and the stamp tax (\<^verbatim>\<open>0.001\<close>); the broker is a fresh
  \<^verbatim>\<open>SimulatedBroker\<close>. The table handed over is a list of bars.
\<close>

definition BacktestEngine_init ::
  "float_ops \<Rightarrow> bar list \<Rightarrow> real \<Rightarrow> real \<Rightarrow> real \<Rightarrow> string \<Rightarrow> string \<Rightarrow> engine" where
  "BacktestEngine_init A data capital commission slip mkt symb =
     \<lparr>eng_data = data, eng_symbol = symb, eng_market = mkt, event_queue = [],
      eng_portfolio = Portfolio_init capital commission slip 5 (flit A (1 / 1000)) mkt,
      eng_broker = \<lparr>order_count = 0\<rparr>\<rparr>"

definition calculate_order_quantity ::
  "float_ops \<Rightarrow> engine \<Rightarrow> signal_event \<Rightarrow> bar \<Rightarrow> int" where
  "calculate_order_quantity A eng sg b =
     (if sig_direction sg = ''SELL'' then position (eng_portfolio eng)
      else
        (let available = fmul A (cash (eng_portfolio eng)) (flit A (95 / 100));
             price = bar_close b
         in if price \<le> 0 then 0
            else
              (let quantity = py_int (fdiv A available price);
                   quantity = (if eng_market eng = ''A'' then (quantity div 100) * 100 else quantity)
               in max quantity 0)))"

text \<open>The \<^verbatim>\<open>OrderEvent(...)\<close> that \<^verbatim>\<open>_handle_signal\<close> builds from a signal and a quantity.\<close>

definition order_of_signal :: "signal_event \<Rightarrow> int \<Rightarrow> order_event" where
  "order_of_signal sg quantity =
     \<lparr>ord_datetime = sig_datetime sg, ord_symbol = sig_symbol sg,
      ord_direction = sig_direction sg, ord_order_type = sig_order_type sg,
      ord_quantity = quantity, ord_price = sig_limit_price sg\<rparr>"

definition handle_signal :: "float_ops \<Rightarrow> engine \<Rightarrow> signal_event \<Rightarrow> bar \<Rightarrow> engine" where
  "handle_signal A eng sg b =
     (let quantity = sig_volume sg;
          quantity = (if quantity \<le> 0 then calculate_order_quantity A eng sg b else quantity)
      in if quantity \<le> 0 then eng
         else eng\<lparr>event_queue := event_queue eng @ [OrderEv (order_of_signal sg quantity)]\<rparr>)"

definition handle_order ::
  "float_ops \<Rightarrow> engine \<Rightarrow> order_event \<Rightarrow> bar \<Rightarrow> error + engine" where
  "handle_order A eng ord b =
     (case execute_order A (eng_broker eng) ord b (eng_portfolio eng) of
        Inl e \<Rightarrow> Inl e
      | Inr (r, br', p') \<Rightarrow>
          (let eng' = eng\<lparr>eng_broker := br', eng_portfolio := p'\<rparr>
           in case r of
                None \<Rightarrow> Inr eng'
              | Some f \<Rightarrow> Inr (eng'\<lparr>event_queue := event_queue eng' @ [FillEv f]\<rparr>)))"

text \<open>
  \<^verbatim>\<open>Strategy.buy\<close> and \<^verbatim>\<open>Strategy.sell\<close> append one signal to the queue of the engine.
  A strategy is its two hooks, \<^verbatim>\<open>on_bar\<close> and \<^verbatim>\<open>on_order_filled\<close>: from its own state, the
  bar or the fill, and the engine it reads through its context, each gives the new state of the
  strategy and the calls to \<^verbatim>\<open>buy\<close> and \<^verbatim>\<open>sell\<close> it makes, in order. The hook of the base
  class makes no call.
\<close>

datatype call = Buy int "real option" string | Sell int "real option" string

definition buy :: "engine \<Rightarrow> bar \<Rightarrow> int \<Rightarrow> real option \<Rightarrow> string \<Rightarrow> engine" where
  "buy eng b volume price order_type =
     eng\<lparr>event_queue := event_queue eng @
       [SignalEv \<lparr>sig_datetime = bar_name b, sig_symbol = eng_symbol eng,
                  sig_direction = ''BUY'', sig_volume = volume,
                  sig_order_type = order_type, sig_limit_price = price\<rparr>]\<rparr>"

definition sell :: "engine \<Rightarrow> bar \<Rightarrow> int \<Rightarrow> real option \<Rightarrow> string \<Rightarrow> engine" where
  "sell eng b volume price order_type =
     (let volume = (if volume \<le> 0 then position (eng_portfolio eng) else volume)
      in eng\<lparr>event_queue := event_queue eng @
           [SignalEv \<lparr>sig_datetime = bar_name b, sig_symbol = eng_symbol eng,
                      sig_direction = ''SELL'', sig_volume = volume,
                      sig_order_type = order_type, sig_limit_price = price\<rparr>]\<rparr>)"

fun do_calls :: "engine \<Rightarrow> bar \<Rightarrow> call list \<Rightarrow> engine" where
  "do_calls eng b [] = eng"
| "do_calls eng b (Buy v pr ot # cs) = do_calls (buy eng b v pr ot) b cs"
| "do_calls eng b (Sell v pr ot # cs) = do_calls (sell eng b v pr ot) b cs"

record 's strategy =
  on_bar :: "'s \<Rightarrow> bar \<Rightarrow> engine \<Rightarrow> 's \<times> call list"
  on_order_filled :: "'s \<Rightarrow> fill_event \<Rightarrow> engine \<Rightarrow> 's \<times> call list"

definition handle_market :: "'s strategy \<Rightarrow> engine \<Rightarrow> 's \<Rightarrow> bar \<Rightarrow> engine \<times> 's" where
  "handle_market strat eng s b =
     (case on_bar strat s b eng of (s', cs) \<Rightarrow> (do_calls eng b cs, s'))"

definition handle_fill ::
  "float_ops \<Rightarrow> 's strategy \<Rightarrow> engine \<Rightarrow> 's \<Rightarrow> fill_event \<Rightarrow> bar \<Rightarrow> engine \<times> 's" where
  "handle_fill A strat eng s f b =
     (let eng1 = eng\<lparr>eng_portfolio := snd (execute_fill A (eng_portfolio eng) f)\<rparr>
      in case on_order_filled strat s f eng1 of (s', cs) \<Rightarrow> (do_calls eng1 b cs, s'))"

definition process_event ::
  "float_ops \<Rightarrow> 's strategy \<Rightarrow> engine \<Rightarrow> 's \<Rightarrow> event \<Rightarrow> bar \<Rightarrow> error + engine \<times> 's" where
  "process_event A strat eng s ev b =
     (case ev of
        MarketEv _ \<Rightarrow> Inr (handle_market strat eng s b)
      | SignalEv sg \<Rightarrow> Inr (handle_signal A eng sg b, s)
      | OrderEv od \<Rightarrow>
          (case handle_order A eng od b of Inl e \<Rightarrow> Inl e | Inr eng' \<Rightarrow> Inr (eng', s))
      | FillEv f \<Rightarrow> Inr (handle_fill A strat eng s f b))"

text \<open>
  The loop \<^verbatim>\<open>while self.event_queue\<close> of \<^verbatim>\<open>run\<close>. A strategy that answers every fill with
  a new signal can keep it going for ever, so its result is optional: \<open>None\<close> is a loop that
  does not end, \<open>Some (Inl e)\<close> an exception that leaves it.
\<close>

partial_function (option) drain ::
  "float_ops \<Rightarrow> 's strategy \<Rightarrow> bar \<Rightarrow> engine \<Rightarrow> 's \<Rightarrow> (error + engine \<times> 's) option" where
  "drain A strat b eng s =
     (case event_queue eng of
        [] \<Rightarrow> Some (Inr (eng, s))
      | ev # rest \<Rightarrow>
          (case process_event A strat (eng\<lparr>event_queue := rest\<rparr>) s ev b of
             Inl e \<Rightarrow> Some (Inl e)
           | Inr (eng', s') \<Rightarrow> drain A strat b eng' s'))"

text \<open>One pass of the \<^verbatim>\<open>for idx in range(total_bars)\<close> loop of \<^verbatim>\<open>run\<close>.\<close>

definition run_bar ::
  "float_ops \<Rightarrow> 's strategy \<Rightarrow> engine \<Rightarrow> 's \<Rightarrow> bar \<Rightarrow> (error + engine \<times> 's) option" where
  "run_bar A strat eng s b =
     (case drain A strat b (eng\<lparr>event_queue := event_queue eng @ [MarketEv (bar_name b)]\<rparr>) s of
        None \<Rightarrow> None
      | Some (Inl e) \<Rightarrow> Some (Inl e)
      | Some (Inr (eng', s')) \<Rightarrow>
          Some (Inr (eng'\<lparr>eng_portfolio :=
                       update_market_value A (eng_portfolio eng') (bar_name b) (bar_close b)\<rparr>,
                s')))"

fun run_bars ::
  "float_ops \<Rightarrow> 's strategy \<Rightarrow> engine \<Rightarrow> 's \<Rightarrow> bar list \<Rightarrow> (error + engine \<times> 's) option" where
  "run_bars A strat eng s [] = Some (Inr (eng, s))"
| "run_bars A strat eng s (b # bs) =
     (case run_bar A strat eng s b of
        None \<Rightarrow> None
      | Some (Inl e) \<Rightarrow> Some (Inl e)
      | Some (Inr (eng', s')) \<Rightarrow> run_bars A strat eng' s' bs)"

text \<open>
  \<^verbatim>\<open>BacktestEngine.run\<close>, up to the engine its result is read from (\<^verbatim>\<open>strategy.init()\<close> only
  changes the state of the strategy, which is the \<open>s\<close> handed over).
\<close>

definition run ::
  "float_ops \<Rightarrow> 's strategy \<Rightarrow> engine \<Rightarrow> 's \<Rightarrow> (error + engine \<times> 's) option" where
  "run A strat eng s = run_bars A strat eng s (eng_data eng)"

section \<open>Table validation (data/base.py)\<close>

text \<open>
  What \<^verbatim>\<open>validate\<close> reads of a \<^verbatim>\<open>pd.DataFrame\<close>: the column names, whether the index is a
  \<^verbatim>\<open>pd.DatetimeIndex\<close>, and the rows, each an index key with one cell per column name. A cell
  is a number or missing (\<open>None\<close>, that is NaN).
\<close>

datatype index_kind = DatetimeIndex | OtherIndex

record dataframe =
  df_columns :: "string list"
  df_index_kind :: index_kind
  df_rows :: "(timestamp \<times> (string \<Rightarrow> real option)) list"

definition REQUIRED_COLUMNS :: "string list" where
  "REQUIRED_COLUMNS = [''open'', ''high'', ''low'', ''close'', ''volume'']"

text \<open>\<^verbatim>\<open>df.sort_index()\<close>: the rows in ascending order of their index keys.\<close>

definition sort_index :: "dataframe \<Rightarrow> dataframe" where
  "sort_index df = df\<lparr>df_rows := sort_key fst (df_rows df)\<rparr>"

text \<open>\<^verbatim>\<open>df.dropna(subset=cols)\<close>: the rows with no missing cell in the given columns.\<close>

definition dropna :: "string list \<Rightarrow> dataframe \<Rightarrow> dataframe" where
  "dropna cols df = df\<lparr>df_rows := filter (\<lambda>r. \<forall>c \<in> set cols. snd r c \<noteq> None) (df_rows df)\<rparr>"

text \<open>
  \<^verbatim>\<open>DataLoader.validate\<close>. The first missing required column raises, then an index that is
  not a \<^verbatim>\<open>DatetimeIndex\<close>. The closing loop over \<^verbatim>\<open>pd.to_numeric(..., errors='coerce')\<close>
  leaves cells that are numbers or missing as they are.
\<close>

definition validate :: "dataframe \<Rightarrow> error + dataframe" where
  "validate df =
     (case find (\<lambda>col. col \<notin> set (df_columns df)) REQUIRED_COLUMNS of
        Some col \<Rightarrow> Inl (ValueError_missing_column col)
      | None \<Rightarrow>
          if df_index_kind df \<noteq> DatetimeIndex then Inl ValueError_index
          else Inr (dropna REQUIRED_COLUMNS (sort_index df)))"

text \<open>A row with no missing cell in a required column.\<close>

definition complete_row :: "timestamp \<times> (string \<Rightarrow> real option) \<Rightarrow> bool" where
  "complete_row r = (\<forall>c \<in> set REQUIRED_COLUMNS. snd r c \<noteq> None)"

section \<open>What a run leaves, and the invariants of the ledger\<close>

text \<open>The portfolio a run ends with, when it ends without an exception.\<close>

definition final_portfolio :: "(error + engine \<times> 's) option \<Rightarrow> portfolio option" where
  "final_portfolio r = (case r of Some (Inr (eng, s)) \<Rightarrow> Some (eng_portfolio eng) | _ \<Rightarrow> None)"





section \<open>The fee formulas and the sizing rule as the specification words them\<close>

text \<open>
  The commission of the specification: in the floor+tax market (\<^verbatim>\<open>"A"\<close>) the larger of
  \<open>trade_amount \<times> rate\<close> and the minimum commission, plus \<open>trade_amount \<times> tax_rate\<close> on a
  SELL; in the proportional market \<open>trade_amount \<times> rate\<close>.
\<close>

definition spec_commission :: "float_ops \<Rightarrow> portfolio \<Rightarrow> real \<Rightarrow> int \<Rightarrow> string \<Rightarrow> real" where
  "spec_commission A p price quantity direction =
     (let trade_amount = fmul A price (fof_int A quantity) in
      if market p = ''A'' then
        (if direction = ''SELL''
         then fadd A (max (fmul A trade_amount (commission_rate p)) (min_commission p))
                (fmul A trade_amount (stamp_tax p))
         else max (fmul A trade_amount (commission_rate p)) (min_commission p))
      else fmul A trade_amount (commission_rate p))"

text \<open>
  The default BUY size of the specification: \<open>floor(0.95 \<times> cash / close)\<close>, truncated down to
  a multiple of 100 in market \<^verbatim>\<open>"A"\<close>.
\<close>

definition spec_buy_quantity :: "float_ops \<Rightarrow> engine \<Rightarrow> bar \<Rightarrow> int" where
  "spec_buy_quantity A eng b =
     (let q = \<lfloor>fdiv A (fmul A (cash (eng_portfolio eng)) (flit A (95 / 100))) (bar_close b)\<rfloor>
      in if eng_market eng = ''A'' then (q div 100) * 100 else q)"

section \<open>Example inputs\<close>

definition default_portfolio :: "real \<Rightarrow> string \<Rightarrow> portfolio" where
  "default_portfolio capital mkt = Portfolio_init capital (3 / 10000) (1 / 1000) 5 (1 / 1000) mkt"

definition flat_bar :: "timestamp \<Rightarrow> real \<Rightarrow> bar" where
  "flat_bar t c =
     \<lparr>bar_name = t, bar_open = c, bar_high = c, bar_low = c, bar_close = c, bar_volume = 1000\<rparr>"

definition ranging_bar :: bar where
  "ranging_bar =
     \<lparr>bar_name = 0, bar_open = 10, bar_high = 11, bar_low = 9, bar_close = 10, bar_volume = 1000\<rparr>"

definition mk_order :: "string \<Rightarrow> string \<Rightarrow> int \<Rightarrow> real option \<Rightarrow> order_event" where
  "mk_order direction order_type quantity price =
     \<lparr>ord_datetime = 0, ord_symbol = ''X'', ord_direction = direction,
      ord_order_type = order_type, ord_quantity = quantity, ord_price = price\<rparr>"

definition mk_fill :: "string \<Rightarrow> int \<Rightarrow> real \<Rightarrow> real \<Rightarrow> fill_event" where
  "mk_fill direction quantity price commission =
     \<lparr>fill_datetime = 0, fill_symbol = ''X'', fill_direction = direction,
      fill_quantity = quantity, fill_price = price, fill_commission = commission,
      fill_slippage_cost = 0\<rparr>"

definition fresh_engine :: "real \<Rightarrow> string \<Rightarrow> engine" where
  "fresh_engine capital mkt = BacktestEngine_init exact [] capital (3 / 10000) (1 / 1000) mkt ''X''"

definition holding_engine :: "int \<Rightarrow> engine" where
  "holding_engine n =
     (fresh_engine 100000 ''A'')\<lparr>eng_portfolio := (default_portfolio 100000 ''A'')\<lparr>position := n\<rparr>\<rparr>"

definition mk_signal :: "string \<Rightarrow> int \<Rightarrow> signal_event" where
  "mk_signal direction volume =
     \<lparr>sig_datetime = 0, sig_symbol = ''X'', sig_direction = direction, sig_volume = volume,
      sig_order_type = ''MARKET'', sig_limit_price = None\<rparr>"

definition full_row :: "real \<Rightarrow> string \<Rightarrow> real option" where
  "full_row v = (\<lambda>col. Some v)"

definition gap_row :: "string \<Rightarrow> real option" where
  "gap_row = (\<lambda>col. if col = ''close'' then None else Some 1)"

definition unsorted_table :: dataframe where
  "unsorted_table =
     \<lparr>df_columns = [''open'', ''high'', ''low'', ''close'', ''volume''],
      df_index_kind = DatetimeIndex,
      df_rows = [(3, full_row 30), (1, full_row 10), (1, full_row 11), (2, gap_row)]\<rparr>"

text \<open>
  A strategy that buys one share on the first bar and sells what it holds on every later bar.
\<close>

definition odd_lot_strategy :: "unit strategy" where
  "odd_lot_strategy =
     \<lparr>on_bar = (\<lambda>s b eng. (s, if bar_name b = 0 then [Buy 1 None ''MARKET'']
                                else [Sell 0 None ''MARKET''])),
      on_order_filled = (\<lambda>s f eng. (s, []))\<rparr>"

definition odd_lot_engine :: engine where
  "odd_lot_engine =
     BacktestEngine_init exact [flat_bar 0 4, flat_bar 1 4] (19 / 2) (3 / 10000) (1 / 1000) ''A'' ''X''"



text \<open>The ledgers these two runs end with.\<close>

definition odd_lot_ledger :: portfolio where
  "odd_lot_ledger =
     \<lparr>initial_capital = 19 / 2, cash = - (127 / 250), commission_rate = 3 / 10000,
      slippage = 1 / 1000, min_commission = 5, stamp_tax = 1 / 1000, market = ''A'',
      position = 0, position_avg_cost = 0,
      trades =
        [\<lparr>trade_datetime = 0, trade_symbol = ''X'', trade_direction = ''BUY'',
          trade_price = 1001 / 250, trade_quantity = 1, trade_commission = 5,
          trade_slippage = 1 / 250\<rparr>,
         \<lparr>trade_datetime = 1, trade_symbol = ''X'', trade_direction = ''SELL'',
          trade_price = 999 / 250, trade_quantity = 1, trade_commission = 5,
          trade_slippage = 1 / 250\<rparr>],
      equity_curve =
        [\<lparr>eq_datetime = 0, eq_cash = 1 / 2, eq_market_value = 4, eq_total_equity = 9 / 2,
          eq_position = 1\<rparr>,
         \<lparr>eq_datetime = 1, eq_cash = - (51 / 100), eq_market_value = 0,
          eq_total_equity = - (51 / 100), eq_position = 0\<rparr>]\<rparr>"


section \<open>Rejected fills\<close>

text \<open>
  C2. When \<^verbatim>\<open>execute_fill\<close> returns \<^verbatim>\<open>False\<close>, the portfolio after the call is the portfolio
  before it: cash, position, average cost, trade history and equity curve, and every other
  field, are unchanged.
\<close>

theorem execute_fill_rejected_unchanged:
  "\<not> fst (execute_fill A p f) \<Longrightarrow> snd (execute_fill A p f) = p"
  by (simp add: execute_fill_def Let_def split: if_splits)

theorem execute_fill_rejected_unchanged_witness:
  "\<not> fst (execute_fill exact (default_portfolio 100 ''A'') (mk_fill ''SELL'' 10 2 5))
   \<and> snd (execute_fill exact (default_portfolio 100 ''A'') (mk_fill ''SELL'' 10 2 5))
     = default_portfolio 100 ''A''"
proof -
  have rejected: "\<not> fst (execute_fill exact (default_portfolio 100 ''A'') (mk_fill ''SELL'' 10 2 5))"
    by (simp add: exact_def execute_fill_def default_portfolio_def Portfolio_init_def mk_fill_def)
  from rejected execute_fill_rejected_unchanged [OF rejected] show ?thesis by simp
qed

section \<open>Fills with an unknown direction\<close>

text \<open>
  C10. A fill whose direction is neither \<^verbatim>\<open>"BUY"\<close> nor \<^verbatim>\<open>"SELL"\<close> is accepted:
  \<^verbatim>\<open>execute_fill\<close> returns \<^verbatim>\<open>True\<close>, appends the trade made of the fields of the fill to the
  trade history, and leaves cash, position and average cost as they were.
\<close>

theorem unknown_direction_fill_accepted:
  assumes "fill_direction f \<noteq> ''BUY''" and "fill_direction f \<noteq> ''SELL''"
  shows "fst (execute_fill A p f)
    \<and> trades (snd (execute_fill A p f)) = trades p @
         [\<lparr>trade_datetime = fill_datetime f, trade_symbol = fill_symbol f,
           trade_direction = fill_direction f, trade_price = fill_price f,
           trade_quantity = fill_quantity f, trade_commission = fill_commission f,
           trade_slippage = fill_slippage_cost f\<rparr>]
    \<and> cash (snd (execute_fill A p f)) = cash p
    \<and> position (snd (execute_fill A p f)) = position p
    \<and> position_avg_cost (snd (execute_fill A p f)) = position_avg_cost p"
  using assms by (simp add: execute_fill_def record_trade_def)

theorem unknown_direction_fill_accepted_witness:
  "fill_direction (mk_fill ''HOLD'' 10 2 5) \<noteq> ''BUY''
   \<and> fill_direction (mk_fill ''HOLD'' 10 2 5) \<noteq> ''SELL''
   \<and> fst (execute_fill exact (default_portfolio 100 ''A'') (mk_fill ''HOLD'' 10 2 5))
   \<and> length (trades (snd (execute_fill exact (default_portfolio 100 ''A'') (mk_fill ''HOLD'' 10 2 5)))) = 1
   \<and> cash (snd (execute_fill exact (default_portfolio 100 ''A'') (mk_fill ''HOLD'' 10 2 5))) = 100
   \<and> position (snd (execute_fill exact (default_portfolio 100 ''A'') (mk_fill ''HOLD'' 10 2 5))) = 0
   \<and> position_avg_cost
       (snd (execute_fill exact (default_portfolio 100 ''A'') (mk_fill ''HOLD'' 10 2 5))) = 0"
  using unknown_direction_fill_accepted
          [where f = "mk_fill ''HOLD'' 10 2 5" and p = "default_portfolio 100 ''A''"
             and A = exact]
  by (simp add: default_portfolio_def Portfolio_init_def mk_fill_def)

section \<open>Frame of the broker and of the snapshot\<close>

text \<open>
  C9. \<^verbatim>\<open>execute_order\<close> leaves the portfolio it is given as it was, whether it fills or
  rejects, and \<^verbatim>\<open>update_market_value\<close> leaves cash, position, average cost and the trade
  history as they were and appends exactly one row to the equity curve.
\<close>

theorem broker_and_snapshot_frame:
  "(execute_order A br od b p = Inr (r, br', p') \<longrightarrow> p' = p)
   \<and> cash (update_market_value A p dt c) = cash p
   \<and> position (update_market_value A p dt c) = position p
   \<and> position_avg_cost (update_market_value A p dt c) = position_avg_cost p
   \<and> trades (update_market_value A p dt c) = trades p
   \<and> (\<exists>row. equity_curve (update_market_value A p dt c) = equity_curve p @ [row])"
  by (auto simp: execute_order_def update_market_value_def Let_def
           split: sum.splits option.splits if_splits)

theorem broker_and_snapshot_frame_witness:
  "execute_order exact \<lparr>order_count = 0\<rparr> (mk_order ''BUY'' ''MARKET'' 100 None) ranging_bar
       (default_portfolio 100000 ''A'')
     = Inr (Some \<lparr>fill_datetime = 0, fill_symbol = ''X'', fill_direction = ''BUY'',
                  fill_quantity = 100, fill_price = 1001 / 100, fill_commission = 5,
                  fill_slippage_cost = 1\<rparr>,
            \<lparr>order_count = 1\<rparr>, default_portfolio 100000 ''A'')
   \<and> cash (update_market_value exact (default_portfolio 100000 ''A'') 0 10) = 100000
   \<and> length (equity_curve (update_market_value exact (default_portfolio 100000 ''A'') 0 10)) = 1"
  using broker_and_snapshot_frame
          [where A = exact and br = "\<lparr>order_count = 0\<rparr>"
             and od = "mk_order ''BUY'' ''MARKET'' 100 None" and b = ranging_bar
             and p = "default_portfolio 100000 ''A''"
             and r = "Some \<lparr>fill_datetime = 0, fill_symbol = ''X'', fill_direction = ''BUY'',
                     fill_quantity = 100, fill_price = 1001 / 100, fill_commission = 5,
                     fill_slippage_cost = 1\<rparr>"
             and br' = "\<lparr>order_count = 1\<rparr>" and p' = "default_portfolio 100000 ''A''"
             and dt = 0 and c = 10]
  by (simp add: exact_def execute_order_def base_fill_price_def calculate_slippage_def
      calculate_commission_def py_round_def Let_def default_portfolio_def Portfolio_init_def mk_order_def ranging_bar_def update_market_value_def)

section \<open>Commission\<close>

text \<open>
  C7, as stated, fails: the commission \<^verbatim>\<open>calculate_commission\<close> returns is not exactly the
  amount of the fee formula. In the proportional market one share at price 1 and rate 0.0003
  has the formula amount 0.0003, and the commission returned is 0.
\<close>

theorem commission_not_exact:
  "calculate_commission exact (default_portfolio 100000 ''US'') 1 1 ''BUY''
     \<noteq> spec_commission exact (default_portfolio 100000 ''US'') 1 1 ''BUY''"
  by (simp add: exact_def calculate_commission_def spec_commission_def default_portfolio_def Portfolio_init_def py_round_def)

text \<open>
  C7, amended. For every price, quantity and direction the commission returned is the amount of
  the fee formula, computed with the float operations of the source, rounded by
  \<^verbatim>\<open>round(commission, 2)\<close>: in market \<^verbatim>\<open>"A"\<close> the formula is the larger of
  \<open>trade_amount \<times> rate\<close> and the minimum commission, plus \<open>trade_amount \<times> tax_rate\<close> on a SELL
  only; in every other market it is \<open>trade_amount \<times> rate\<close>, with no floor and no tax.
\<close>

theorem commission_rounded:
  "calculate_commission A p price quantity direction
     = fround A (spec_commission A p price quantity direction) 2
   \<and> spec_commission A p price quantity direction
     = (if market p = ''A'' then
          (if direction = ''SELL''
           then fadd A (max (fmul A (fmul A price (fof_int A quantity)) (commission_rate p))
                            (min_commission p))
                  (fmul A (fmul A price (fof_int A quantity)) (stamp_tax p))
           else max (fmul A (fmul A price (fof_int A quantity)) (commission_rate p))
                    (min_commission p))
        else fmul A (fmul A price (fof_int A quantity)) (commission_rate p))"
  by (simp add: calculate_commission_def spec_commission_def Let_def)

section \<open>Funds and position check of the broker\<close>




section \<open>Limit orders\<close>



section \<open>Default order size\<close>

lemma lot_nonpos: "(t::int) \<le> 0 \<Longrightarrow> (t div 100) * 100 \<le> 0"
  by presburger

lemma buy_quantity_eq:
  assumes "sig_direction sg \<noteq> ''SELL''"
  shows "calculate_order_quantity A eng sg b
           = (if bar_close b \<le> 0 then 0 else max (spec_buy_quantity A eng b) 0)"
proof (cases "bar_close b \<le> 0")
  case True
  then show ?thesis using assms by (simp add: calculate_order_quantity_def)
next
  case False
  define x where
    "x = fdiv A (fmul A (cash (eng_portfolio eng)) (flit A (95 / 100))) (bar_close b)"
  have code: "calculate_order_quantity A eng sg b
      = max (if eng_market eng = ''A'' then (py_int x div 100) * 100 else py_int x) 0"
    using False assms unfolding calculate_order_quantity_def Let_def x_def by simp
  have spec: "spec_buy_quantity A eng b
      = (if eng_market eng = ''A'' then (\<lfloor>x\<rfloor> div 100) * 100 else \<lfloor>x\<rfloor>)"
    unfolding spec_buy_quantity_def Let_def x_def by simp
  have key: "max (if eng_market eng = ''A'' then (py_int x div 100) * 100 else py_int x) 0
           = max (if eng_market eng = ''A'' then (\<lfloor>x\<rfloor> div 100) * 100 else \<lfloor>x\<rfloor>) 0"
  proof (cases "0 \<le> x")
    case True
    then show ?thesis by (simp add: py_int_def)
  next
    case neg: False
    then have c: "\<lceil>x\<rceil> \<le> 0" and f: "\<lfloor>x\<rfloor> \<le> 0"
      by (simp_all add: floor_le_iff)
    from neg have pi: "py_int x = \<lceil>x\<rceil>" by (simp add: py_int_def)
    show ?thesis
      using lot_nonpos [OF c] lot_nonpos [OF f] c f by (simp add: pi max_def)
  qed
  show ?thesis
    using False by (simp only: code spec key if_False)
qed

text \<open>
  C6, as stated, fails: the engine does not size every BUY of requested quantity 0 by
  \<open>floor(0.95 \<times> cash / close)\<close>. With a cash of -250 and a bar that closes at -1 that amount
  is 237, and \<^verbatim>\<open>_calculate_order_quantity\<close> returns 0 at its test \<^verbatim>\<open>price <= 0\<close>: no order is
  emitted.
\<close>

theorem nonpositive_close_emits_no_order:
  "sig_volume (mk_signal ''BUY'' 0) = 0
   \<and> spec_buy_quantity exact (fresh_engine (- 250) ''US'') (flat_bar 0 (- 1)) = 237
   \<and> handle_signal exact (fresh_engine (- 250) ''US'') (mk_signal ''BUY'' 0) (flat_bar 0 (- 1))
       = fresh_engine (- 250) ''US''"
  by (simp add: exact_def handle_signal_def calculate_order_quantity_def spec_buy_quantity_def
                fresh_engine_def BacktestEngine_init_def Portfolio_init_def mk_signal_def
                flat_bar_def)

text \<open>
  C6, amended. For a signal whose requested quantity is 0: a SELL is sized as the entire current
  position, and no order is emitted when there is none. For a BUY, no order is emitted on a
  bar whose close is not positive; on every other bar the quantity is the floor of
  \<^verbatim>\<open>cash * 0.95 / close\<close>, the product and the quotient computed with the float operations
  of the source, truncated down to a multiple of 100 in market \<^verbatim>\<open>"A"\<close> and taken as it is in
  every other market, and the order, which carries the fields of the signal and that
  quantity, is emitted exactly when the quantity is positive.
\<close>

theorem default_order_size:
  assumes "sig_volume sg = 0"
  shows "(sig_direction sg = ''SELL'' \<longrightarrow>
            handle_signal A eng sg b =
              (if position (eng_portfolio eng) \<le> 0 then eng
               else eng\<lparr>event_queue := event_queue eng @
                      [OrderEv \<lparr>ord_datetime = sig_datetime sg, ord_symbol = sig_symbol sg,
                                ord_direction = ''SELL'', ord_order_type = sig_order_type sg,
                                ord_quantity = position (eng_portfolio eng),
                                ord_price = sig_limit_price sg\<rparr>]\<rparr>))
       \<and> (sig_direction sg = ''BUY'' \<longrightarrow>
            handle_signal A eng sg b =
              (if bar_close b \<le> 0 \<or> spec_buy_quantity A eng b \<le> 0 then eng
               else eng\<lparr>event_queue := event_queue eng @
                      [OrderEv \<lparr>ord_datetime = sig_datetime sg, ord_symbol = sig_symbol sg,
                                ord_direction = ''BUY'', ord_order_type = sig_order_type sg,
                                ord_quantity = spec_buy_quantity A eng b,
                                ord_price = sig_limit_price sg\<rparr>]\<rparr>))
       \<and> spec_buy_quantity A eng b =
            (if eng_market eng = ''A''
             then (\<lfloor>fdiv A (fmul A (cash (eng_portfolio eng)) (flit A (95 / 100)))
                       (bar_close b)\<rfloor> div 100) * 100
             else \<lfloor>fdiv A (fmul A (cash (eng_portfolio eng)) (flit A (95 / 100)))
                      (bar_close b)\<rfloor>)"
proof -
  have sell: "sig_direction sg = ''SELL'' \<Longrightarrow>
      calculate_order_quantity A eng sg b = position (eng_portfolio eng)"
    by (simp add: calculate_order_quantity_def)
  have buy: "sig_direction sg = ''BUY'' \<Longrightarrow> calculate_order_quantity A eng sg b
           = (if bar_close b \<le> 0 then 0 else max (spec_buy_quantity A eng b) 0)"
    by (rule buy_quantity_eq) simp
  have spec: "spec_buy_quantity A eng b =
            (if eng_market eng = ''A''
             then (\<lfloor>fdiv A (fmul A (cash (eng_portfolio eng)) (flit A (95 / 100)))
                       (bar_close b)\<rfloor> div 100) * 100
             else \<lfloor>fdiv A (fmul A (cash (eng_portfolio eng)) (flit A (95 / 100)))
                      (bar_close b)\<rfloor>)"
    by (simp add: spec_buy_quantity_def Let_def)
  have s: "sig_direction sg = ''SELL'' \<longrightarrow>
            handle_signal A eng sg b =
              (if position (eng_portfolio eng) \<le> 0 then eng
               else eng\<lparr>event_queue := event_queue eng @
                      [OrderEv \<lparr>ord_datetime = sig_datetime sg, ord_symbol = sig_symbol sg,
                                ord_direction = ''SELL'', ord_order_type = sig_order_type sg,
                                ord_quantity = position (eng_portfolio eng),
                                ord_price = sig_limit_price sg\<rparr>]\<rparr>)"
    using assms sell by (auto simp: handle_signal_def Let_def order_of_signal_def)
  have b: "sig_direction sg = ''BUY'' \<longrightarrow>
            handle_signal A eng sg b =
              (if bar_close b \<le> 0 \<or> spec_buy_quantity A eng b \<le> 0 then eng
               else eng\<lparr>event_queue := event_queue eng @
                      [OrderEv \<lparr>ord_datetime = sig_datetime sg, ord_symbol = sig_symbol sg,
                                ord_direction = ''BUY'', ord_order_type = sig_order_type sg,
                                ord_quantity = spec_buy_quantity A eng b,
                                ord_price = sig_limit_price sg\<rparr>]\<rparr>)"
    using assms buy by (auto simp: handle_signal_def Let_def order_of_signal_def max_def)
  from s b spec show ?thesis by blast
qed

theorem default_order_size_witness:
  "sig_volume (mk_signal ''SELL'' 0) = 0
   \<and> handle_signal exact (holding_engine 300) (mk_signal ''SELL'' 0) (flat_bar 0 10)
       = (holding_engine 300)\<lparr>event_queue :=
            [OrderEv \<lparr>ord_datetime = 0, ord_symbol = ''X'', ord_direction = ''SELL'',
                      ord_order_type = ''MARKET'', ord_quantity = 300, ord_price = None\<rparr>]\<rparr>
   \<and> sig_volume (mk_signal ''BUY'' 0) = 0
   \<and> spec_buy_quantity exact (fresh_engine 100000 ''A'') (flat_bar 0 10) = 9500
   \<and> handle_signal exact (fresh_engine 100000 ''A'') (mk_signal ''BUY'' 0) (flat_bar 0 10)
       = (fresh_engine 100000 ''A'')\<lparr>event_queue :=
            [OrderEv \<lparr>ord_datetime = 0, ord_symbol = ''X'', ord_direction = ''BUY'',
                      ord_order_type = ''MARKET'', ord_quantity = 9500, ord_price = None\<rparr>]\<rparr>
   \<and> spec_buy_quantity exact (fresh_engine 100000 ''US'') (flat_bar 0 7) = 13571
   \<and> handle_signal exact (fresh_engine 100000 ''US'') (mk_signal ''BUY'' 0) (flat_bar 0 7)
       = (fresh_engine 100000 ''US'')\<lparr>event_queue :=
            [OrderEv \<lparr>ord_datetime = 0, ord_symbol = ''X'', ord_direction = ''BUY'',
                      ord_order_type = ''MARKET'', ord_quantity = 13571, ord_price = None\<rparr>]\<rparr>
   \<and> spec_buy_quantity exact (fresh_engine 100 ''A'') (flat_bar 0 10) = 0
   \<and> handle_signal exact (fresh_engine 100 ''A'') (mk_signal ''BUY'' 0) (flat_bar 0 10)
       = fresh_engine 100 ''A''
   \<and> bar_close (flat_bar 0 0) \<le> 0
   \<and> handle_signal exact (fresh_engine 100000 ''A'') (mk_signal ''BUY'' 0) (flat_bar 0 0)
       = fresh_engine 100000 ''A''"
proof -
  have q1: "spec_buy_quantity exact (fresh_engine 100000 ''A'') (flat_bar 0 10) = 9500"
    by (simp add: exact_def spec_buy_quantity_def fresh_engine_def flat_bar_def
                  BacktestEngine_init_def Portfolio_init_def)
  have q2: "spec_buy_quantity exact (fresh_engine 100000 ''US'') (flat_bar 0 7) = 13571"
    by (simp add: exact_def spec_buy_quantity_def fresh_engine_def flat_bar_def
                  BacktestEngine_init_def Portfolio_init_def)
  have q3: "spec_buy_quantity exact (fresh_engine 100 ''A'') (flat_bar 0 10) = 0"
    by (simp add: exact_def spec_buy_quantity_def fresh_engine_def flat_bar_def
                  BacktestEngine_init_def Portfolio_init_def)
  have v: "sig_volume (mk_signal ''SELL'' 0) = 0" "sig_volume (mk_signal ''BUY'' 0) = 0"
    "sig_direction (mk_signal ''SELL'' 0) = ''SELL''" "sig_direction (mk_signal ''BUY'' 0) = ''BUY''"
    "sig_datetime (mk_signal ''SELL'' 0) = 0" "sig_datetime (mk_signal ''BUY'' 0) = 0"
    "sig_symbol (mk_signal ''SELL'' 0) = ''X''" "sig_symbol (mk_signal ''BUY'' 0) = ''X''"
    "sig_order_type (mk_signal ''SELL'' 0) = ''MARKET''"
    "sig_order_type (mk_signal ''BUY'' 0) = ''MARKET''"
    "sig_limit_price (mk_signal ''SELL'' 0) = None" "sig_limit_price (mk_signal ''BUY'' 0) = None"
    "bar_close (flat_bar 0 10) = 10" "bar_close (flat_bar 0 7) = 7" "bar_close (flat_bar 0 0) = 0"
    "position (eng_portfolio (holding_engine 300)) = 300"
    "event_queue (holding_engine 300) = []" "event_queue (fresh_engine 100000 ''A'') = []"
    "event_queue (fresh_engine 100000 ''US'') = []"
    by (simp_all add: fresh_engine_def holding_engine_def mk_signal_def flat_bar_def
                      BacktestEngine_init_def default_portfolio_def Portfolio_init_def)
  show ?thesis
    using default_order_size [where sg = "mk_signal ''SELL'' 0" and eng = "holding_engine 300"
                                and b = "flat_bar 0 10" and A = exact]
          default_order_size [where sg = "mk_signal ''BUY'' 0" and eng = "fresh_engine 100000 ''A''"
                                and b = "flat_bar 0 10" and A = exact]
          default_order_size [where sg = "mk_signal ''BUY'' 0" and eng = "fresh_engine 100000 ''US''"
                                and b = "flat_bar 0 7" and A = exact]
          default_order_size [where sg = "mk_signal ''BUY'' 0" and eng = "fresh_engine 100 ''A''"
                                and b = "flat_bar 0 10" and A = exact]
          default_order_size [where sg = "mk_signal ''BUY'' 0" and eng = "fresh_engine 100000 ''A''"
                                and b = "flat_bar 0 0" and A = exact]
    by (simp add: q1 q2 q3 v)
qed

section \<open>Malformed input\<close>

text \<open>
  C5, as stated, fails: a table whose timestamps are out of order and repeated and which has a
  missing value in a required column passes \<^verbatim>\<open>validate\<close> without an error (the rows are
  sorted, the row with the missing value is dropped, the repeated timestamp is kept), and the
  constructor of the engine takes a negative initial capital as it is.
\<close>

theorem malformed_table_accepted:
  "validate unsorted_table
     = Inr (unsorted_table\<lparr>df_rows := [(1, full_row 10), (1, full_row 11), (3, full_row 30)]\<rparr>)
   \<and> cash (eng_portfolio (BacktestEngine_init exact [] (- 5) (3 / 10000) (1 / 1000) ''A'' ''X'')) = - 5"
  by (simp add: validate_def REQUIRED_COLUMNS_def sort_index_def dropna_def unsorted_table_def full_row_def gap_row_def
                exact_def BacktestEngine_init_def Portfolio_init_def)

lemma validate_isl:
  "isl (validate df) \<longleftrightarrow>
     (\<exists>c \<in> set REQUIRED_COLUMNS. c \<notin> set (df_columns df)) \<or> df_index_kind df \<noteq> DatetimeIndex"
proof (cases "find (\<lambda>col. col \<notin> set (df_columns df)) REQUIRED_COLUMNS")
  case None
  then have "\<not> (\<exists>c \<in> set REQUIRED_COLUMNS. c \<notin> set (df_columns df))"
    by (auto simp: find_None_iff)
  with None show ?thesis by (simp add: validate_def)
next
  case (Some col)
  then obtain i where "i < length REQUIRED_COLUMNS" "REQUIRED_COLUMNS ! i \<notin> set (df_columns df)"
    by (auto simp: find_Some_iff)
  then have "\<exists>c \<in> set REQUIRED_COLUMNS. c \<notin> set (df_columns df)"
    using nth_mem by blast
  with Some show ?thesis by (simp add: validate_def)
qed

text \<open>
  C5, amended. \<^verbatim>\<open>validate\<close> raises exactly when a required column is missing or the index is
  not a \<^verbatim>\<open>DatetimeIndex\<close>. On every other table it returns the rows that have no missing
  value in a required column, each as often as it occurs in the input, in ascending order of
  their timestamps. The constructor of the engine takes any initial capital as the cash of the
  portfolio.
\<close>

theorem validate_raises_iff:
  "(isl (validate df) \<longleftrightarrow>
      (\<exists>c \<in> set REQUIRED_COLUMNS. c \<notin> set (df_columns df)) \<or> df_index_kind df \<noteq> DatetimeIndex)
   \<and> (validate df = Inr df' \<longrightarrow>
        sorted (map fst (df_rows df'))
        \<and> set (df_rows df') = {r \<in> set (df_rows df). complete_row r}
        \<and> length (df_rows df') = length (filter complete_row (df_rows df)))
   \<and> cash (eng_portfolio (BacktestEngine_init A data capital comm slip mkt symb)) = capital"
proof -
  have rows: "validate df = Inr df' \<Longrightarrow>
      df_rows df' = filter complete_row (sort_key fst (df_rows df))"
    by (auto simp: validate_def dropna_def sort_index_def complete_row_def [abs_def]
             split: option.splits if_splits)
  have l: "length (filter complete_row (sort_key fst (df_rows df)))
         = length (filter complete_row (df_rows df))"
    by (simp add: filter_sort)
  have s: "sorted (map fst (filter complete_row (sort_key fst (df_rows df))))"
    by (simp add: filter_sort)
  show ?thesis
    using validate_isl [of df] rows l s
    by (auto simp: BacktestEngine_init_def Portfolio_init_def)
qed

theorem validate_raises_iff_witness:
  "\<not> isl (validate unsorted_table)
   \<and> \<not> (\<exists>c \<in> set REQUIRED_COLUMNS. c \<notin> set (df_columns unsorted_table))
   \<and> isl (validate (unsorted_table\<lparr>df_columns := [''open'', ''close'']\<rparr>))
   \<and> (\<exists>c \<in> set REQUIRED_COLUMNS. c \<notin> set (df_columns (unsorted_table\<lparr>df_columns := [''open'', ''close'']\<rparr>)))
   \<and> validate unsorted_table
       = Inr (unsorted_table\<lparr>df_rows := [(1, full_row 10), (1, full_row 11), (3, full_row 30)]\<rparr>)
   \<and> sorted (map fst [(1, full_row 10), (1, full_row 11), (3::int, full_row 30)])
   \<and> length (filter complete_row (df_rows unsorted_table)) = 3
   \<and> cash (eng_portfolio (fresh_engine 100000 ''A'')) = 100000"
  using validate_raises_iff
          [where df = unsorted_table
             and df' = "unsorted_table\<lparr>df_rows :=
                          [(1, full_row 10), (1, full_row 11), (3, full_row 30)]\<rparr>"
             and A = exact and data = "[]" and capital = 100000 and comm = "3 / 10000"
             and slip = "1 / 1000" and mkt = "''A''" and symb = "''X''"]
        validate_raises_iff
          [where df = "unsorted_table\<lparr>df_columns := [''open'', ''close'']\<rparr>"]
  by (simp add: validate_def REQUIRED_COLUMNS_def sort_index_def dropna_def complete_row_def
                unsorted_table_def full_row_def gap_row_def fresh_engine_def
                exact_def BacktestEngine_init_def Portfolio_init_def)

section \<open>Position and average cost\<close>



















section \<open>Cash after an accepted fill\<close>

text \<open>
  What \<^verbatim>\<open>execute_fill\<close> does keep: an accepted BUY leaves cash non-negative, whatever it was,
  and a fill of positive quantity leaves a non-negative position non-negative.
\<close>

lemma accepted_buy_keeps_cash:
  assumes "fill_direction f = ''BUY''" and "fst (execute_fill exact p f)"
  shows "0 \<le> cash (snd (execute_fill exact p f))"
  using assms by (auto simp: exact_def execute_fill_def Let_def record_trade_def split: if_splits)

lemma accepted_fill_keeps_position:
  assumes "0 \<le> position p" and "0 < fill_quantity f"
  shows "0 \<le> position (snd (execute_fill A p f))"
  using assms by (auto simp: execute_fill_def Let_def record_trade_def split: if_splits)

text \<open>
  C1 does not hold of the code. With a capital of 9.5 in market \<^verbatim>\<open>"A"\<close>, a strategy buys one
  share at a close of 4 (price 4.004, commission 5, cash left 0.496) and sells it on the next
  bar at the same close: the broker emits the fill (price 3.996, commission 5 by the minimum
  commission), \<^verbatim>\<open>execute_fill\<close> accepts it, the SELL is recorded, and cash is
  0.496 + 3.996 - 5 = -0.508. The BUY branch compares cost plus commission with cash; the SELL
  branch only compares the quantity with the position.
\<close>

theorem odd_lot_sale_overdraws_cash:
  "final_portfolio (run exact odd_lot_strategy odd_lot_engine ()) = Some odd_lot_ledger
   \<and> cash odd_lot_ledger < 0
   \<and> map trade_direction (trades odd_lot_ledger) = [''BUY'', ''SELL'']"
  by (simp add: exact_def run_def run_bar_def drain.simps process_event_def handle_market_def
      handle_signal_def handle_order_def handle_fill_def buy_def sell_def order_of_signal_def
      calculate_order_quantity_def execute_fill_def record_trade_def
      update_market_value_def final_portfolio_def execute_order_def base_fill_price_def calculate_slippage_def
      calculate_commission_def py_round_def Let_def odd_lot_strategy_def odd_lot_engine_def odd_lot_ledger_def flat_bar_def
      BacktestEngine_init_def Portfolio_init_def)

end
